theory Spec2Isabelle
  imports Main "HOL-Library.Word" "HOL-Library.AList"
begin

section \<open>Data model of the Slashtag class\<close>

text \<open>
  The class \<open>Slashtag\<close> (289-line source file, \<open>export class Slashtag extends
  EventEmitter\<close>) is embedded as a record of its fields, and each method as a function
  from the object's state to a result and the new state. Calls that leave the class
  (the DHT, Hyperswarm, Corestore, SlashDrive, the event emitter) are appended to a log,
  the field \<open>trace\<close>, in program order, so that "exactly once", "before" and "performs
  no effect" are statements about that log. The collaborators' own failures (I/O
  errors, rejected promises of the network) are outside the model.
\<close>

type_synonym bytes = "8 word list"

record keypair =
  publicKey :: bytes
  secretKey :: bytes

text \<open>A parsed \<open>SlashURL\<close>; the class only ever reads \<open>url.slashtag.key\<close>.\<close>

datatype slashurl = SlashURL (slashtag_key: bytes)

datatype error =
    Missing_keyPair_or_key            \<comment> \<open>\<open>Error('Missing keyPair or key')\<close>\<close>
  | Cannot_listen_remote              \<comment> \<open>\<open>Error('Cannot listen on a remote slashtag')\<close>\<close>
  | Cannot_connect_remote             \<comment> \<open>\<open>Error('Cannot connect from a remote slashtag')\<close>\<close>
  | Cannot_connect_self               \<comment> \<open>\<open>Error('Cannot connect to self')\<close>\<close>
  | Cannot_register_protocol_remote   \<comment> \<open>\<open>Error('Cannot register protocol on a remote slashtag')\<close>\<close>
  | Invalid_URL                       \<comment> \<open>thrown by \<open>new SlashURL(string)\<close>\<close>
  | TypeError                         \<comment> \<open>a member access on \<open>undefined\<close>\<close>
  | SyntaxError                       \<comment> \<open>thrown by \<open>JSON.parse\<close>\<close>
  | Drive_not_writable                \<comment> \<open>rejected \<open>SlashDrive.put\<close> on a read-only drive\<close>

text \<open>
  The errors that say an operation needs the key pair of a local identity
  (the spec's \<open>RemoteIdentityError\<close>).
\<close>

fun is_RemoteIdentityError :: "error \<Rightarrow> bool" where
  "is_RemoteIdentityError Cannot_listen_remote = True"
| "is_RemoteIdentityError Cannot_connect_remote = True"
| "is_RemoteIdentityError Cannot_register_protocol_remote = True"
| "is_RemoteIdentityError _ = False"

record swarm_opts =
  relays :: "string list"
  bootstrap :: "(string \<times> nat) list"

text \<open>
  The namespaced Corestore. \<open>store_data\<close> holds, per drive key, the entries written
  through a drive opened on this store.
\<close>

record store =
  store_namespace :: "bytes list"
  store_closed :: bool
  store_data :: "bytes \<Rightarrow> string \<Rightarrow> bytes option"

definition new_Corestore :: store where
  "new_Corestore = \<lparr>store_namespace = [], store_closed = False, store_data = (\<lambda>_ _. None)\<rparr>"

definition namespace :: "bytes \<Rightarrow> store \<Rightarrow> store" where
  "namespace k st = st\<lparr>store_namespace := store_namespace st @ [k]\<rparr>"

text \<open>A protocol class (its static \<open>protocol\<close> name) and an instance of one.\<close>

datatype protocol_class = ProtocolClass (protocol_name: string)

record protocol_inst =
  inst_id :: nat
  inst_name :: string

record slashtag_opts =
  opt_url :: "string option"
  opt_key :: "bytes option"
  opt_keyPair :: "keypair option"
  opt_store :: "store option"
  opt_protocols :: "protocol_class list option"
  opt_swarmOpts :: "swarm_opts option"

record drive_opts =
  dopt_name :: "string option"
  dopt_encrypted :: "bool option"
  dopt_key :: "bytes option"
  dopt_keyPair :: "keypair option"
  dopt_encryptionKey :: "bytes option"

text \<open>
  A \<open>SlashDrive\<close> handle. \<open>drive_id\<close> is the identity of the JavaScript object: two
  handles are the same object iff they have the same id.
\<close>

record slashdrive =
  drive_id :: nat
  drive_key :: bytes
  discoveryKey :: bytes
  writable :: bool

record socket =
  sock_id :: nat
  remotePublicKey :: bytes

record peerinfo =
  pi_publicKey :: bytes
  pi_slashtag :: "bytes option"   \<comment> \<open>key of the remote \<open>Slashtag\<close> attached by \<open>_handleConnection\<close>\<close>

text \<open>The two tables of the Hyperswarm session that \<open>connect\<close> reads.\<close>

record hyperswarm =
  swarm_id :: nat
  allConnections :: "bytes \<Rightarrow> socket option"
  peers :: "string \<Rightarrow> peerinfo option"

datatype event =
    DHT_create                        \<comment> \<open>\<open>DHT.create({...this._swarmOpts})\<close>\<close>
  | Hyperswarm_new                    \<comment> \<open>\<open>new Hyperswarm({...})\<close>\<close>
  | Swarm_on_connection               \<comment> \<open>\<open>swarm.on('connection', ...)\<close>\<close>
  | Swarm_listen                      \<comment> \<open>\<open>swarm.listen()\<close>\<close>
  | Swarm_join bytes                  \<comment> \<open>\<open>swarm.join(discoveryKey, opts)\<close>\<close>
  | Swarm_joinPeer bytes              \<comment> \<open>\<open>swarm.joinPeer(key)\<close>\<close>
  | Swarm_flush                       \<comment> \<open>\<open>swarm.flush()\<close>\<close>
  | Swarm_destroy                     \<comment> \<open>\<open>swarm.destroy()\<close>\<close>
  | CatchConnection bytes             \<comment> \<open>\<open>catchConnection(swarm, key)\<close>\<close>
  | Store_replicate nat               \<comment> \<open>\<open>store.replicate(socket)\<close>\<close>
  | Store_close                       \<comment> \<open>\<open>store.close()\<close>\<close>
  | SlashDrive_new nat                \<comment> \<open>\<open>new SlashDrive({...opts, store})\<close>, the id of the new handle\<close>
  | Drive_ready nat                   \<comment> \<open>\<open>drive.ready()\<close>\<close>
  | Drive_update nat                  \<comment> \<open>\<open>drive.update()\<close>\<close>
  | Drive_findingPeers nat            \<comment> \<open>\<open>drive.findingPeers()\<close>\<close>
  | Drive_put nat string bytes        \<comment> \<open>\<open>drive.put(key, value)\<close>\<close>
  | Drive_get nat string              \<comment> \<open>\<open>drive.get(key)\<close>\<close>
  | Protocol_new string               \<comment> \<open>\<open>new Protocol({ slashtag: this })\<close>\<close>
  | Protocol_createChannel string nat \<comment> \<open>\<open>protocol.createChannel(socket, peerInfo)\<close>\<close>
  | Slashtag_new_remote bytes         \<comment> \<open>\<open>new Slashtag({ key: peerInfo.publicKey, ... })\<close>\<close>
  | Socket_on_error nat               \<comment> \<open>\<open>socket.on('error', ...)\<close>\<close>
  | Socket_on_close nat               \<comment> \<open>\<open>socket.on('close', ...)\<close>\<close>
  | Closed_set                        \<comment> \<open>the assignment \<open>this.closed = true\<close>\<close>
  | Emit_close                        \<comment> \<open>\<open>this.emit('close')\<close>\<close>
  | Emit_connection nat               \<comment> \<open>\<open>this.emit('connection', socket, peerInfo)\<close>\<close>

text \<open>
  The fields of a \<open>Slashtag\<close>. \<open>ready_flag\<close> is \<open>this._ready\<close>, \<open>drives\<close> is
  \<open>this._drives\<close> (a HashMap keyed by the bytes of the key), \<open>protocols\<close> is
  \<open>this._protocols\<close> (a Map in insertion order, left undefined on a remote
  identity), \<open>swarmOpts\<close> is \<open>this._swarmOpts\<close>. \<open>fresh\<close> is the next unused object
  id and \<open>trace\<close> the log of calls made so far; neither is a field of the source.
\<close>

record slashtag =
  keyPair :: "keypair option"
  remote :: bool
  url :: slashurl
  key :: bytes
  swarmOpts :: "swarm_opts option"
  store :: store
  drives :: "bytes \<Rightarrow> slashdrive option"
  protocols :: "(string \<times> protocol_inst) list option"
  closed :: bool
  ready_flag :: bool
  swarm :: "hyperswarm option"
  publicDrive :: "slashdrive option"
  fresh :: nat
  trace :: "event list"

text \<open>
  What the class imports and the model does not define: the \<open>SlashURL\<close> parser of
  \<open>url.js\<close>, the key material a \<open>SlashDrive\<close> resolves from its options (its key, its
  discovery key and whether it accepts writes), \<open>JSON.stringify\<close>/\<open>JSON.parse\<close> and
  the \<open>b4a\<close> conversions between text and bytes. They are parameters of every method
  that uses them; \<open>'j\<close> is the type of profile values.
\<close>

record 'j ext =
  SlashURL_parse :: "string \<Rightarrow> error + slashurl"
  SlashDrive_resolve :: "bytes list \<Rightarrow> drive_opts \<Rightarrow> bytes \<times> bytes \<times> bool"
  JSON_stringify :: "'j \<Rightarrow> string"
  JSON_parse :: "string \<Rightarrow> error + 'j"
  b4a_from :: "string \<Rightarrow> bytes"
  b4a_toString :: "bytes \<Rightarrow> string"

text \<open>\<open>b4a.toString(key, 'hex')\<close>.\<close>

definition hex_digit :: "nat \<Rightarrow> char" where
  "hex_digit n = ''0123456789abcdef'' ! (n mod 16)"

definition hex :: "bytes \<Rightarrow> string" where
  "hex bs = concat (map (\<lambda>b. [hex_digit (unat b div 16), hex_digit (unat b)]) bs)"

definition DRIVE_KEYS_profile :: string where
  "DRIVE_KEYS_profile = ''profile.json''"


section \<open>The methods\<close>

subsection \<open>protocol\<close>

definition protocol :: "protocol_class \<Rightarrow> slashtag \<Rightarrow> (error + protocol_inst) \<times> slashtag" where
  "protocol P s =
    (if remote s then (Inl Cannot_register_protocol_remote, s)
     else
       (case Option.bind (protocols s) (\<lambda>m. map_of m (protocol_name P)) of
          Some p \<Rightarrow> (Inr p, s)
        | None \<Rightarrow>
            (let p = \<lparr>inst_id = fresh s, inst_name = protocol_name P\<rparr>;
                 s1 = s\<lparr>fresh := Suc (fresh s),
                        trace := trace s @ [Protocol_new (protocol_name P)]\<rparr>
             in (Inr p,
                 s1\<lparr>protocols := map_option (\<lambda>m. m @ [(protocol_name P, p)]) (protocols s1)\<rparr>))))"

subsection \<open>constructor\<close>

text \<open>
  Lines 38 to 67. \<open>opts.url ? new SlashURL(opts.url) : null\<close> takes the empty string
  as absent; a \<open>Uint8Array\<close> is truthy whatever its length, so \<open>||\<close> on keys selects
  the first one that is present. The shutdown hook (\<open>goodbye\<close>) is not modelled.
\<close>

definition constructor_url :: "'j ext \<Rightarrow> slashtag_opts \<Rightarrow> error + slashurl option" where
  "constructor_url E opts =
    (case opt_url opts of
       None \<Rightarrow> Inr None
     | Some u \<Rightarrow> if u = [] then Inr None else map_sum id Some (SlashURL_parse E u))"

definition constructor_key :: "slashtag_opts \<Rightarrow> slashurl option \<Rightarrow> bytes option" where
  "constructor_key opts u =
    (case opt_keyPair opts of
       Some kp \<Rightarrow> Some (publicKey kp)
     | None \<Rightarrow> (case opt_key opts of Some k \<Rightarrow> Some k | None \<Rightarrow> map_option slashtag_key u))"

text \<open>\<open>opts.protocols?.forEach((p) => this.protocol(p))\<close>: calls of \<open>protocol\<close> in a row.\<close>

definition protocol_calls :: "protocol_class list \<Rightarrow> slashtag \<Rightarrow> slashtag" where
  "protocol_calls Ps s = fold (\<lambda>P t. snd (protocol P t)) Ps s"

text \<open>The fields as lines 41 to 53 and 60 assign them, for the url \<open>u\<close> and the key \<open>k\<close>.\<close>

definition constructor_fields :: "slashtag_opts \<Rightarrow> slashurl option \<Rightarrow> bytes \<Rightarrow> slashtag" where
  "constructor_fields opts u k =
    \<lparr>keyPair = opt_keyPair opts,
     remote = (opt_keyPair opts = None),
     url = (case u of Some x \<Rightarrow> x | None \<Rightarrow> SlashURL k),
     key = k,
     swarmOpts = opt_swarmOpts opts,
     store = namespace k (case opt_store opts of Some st \<Rightarrow> st | None \<Rightarrow> new_Corestore),
     drives = (\<lambda>_. None),
     protocols = None,
     closed = False,
     ready_flag = False,
     swarm = None,
     publicDrive = None,
     fresh = 0,
     trace = []\<rparr>"

definition constructor :: "'j ext \<Rightarrow> slashtag_opts \<Rightarrow> error + slashtag" where
  "constructor E opts =
    (case constructor_url E opts of
       Inl e \<Rightarrow> Inl e
     | Inr u \<Rightarrow>
        (case constructor_key opts u of
           None \<Rightarrow> Inl Missing_keyPair_or_key
         | Some k \<Rightarrow>
            (let s = constructor_fields opts u k
             in if remote s then Inr s
                else Inr (protocol_calls
                            (case opt_protocols opts of Some ps \<Rightarrow> ps | None \<Rightarrow> [])
                            (s\<lparr>protocols := Some []\<rparr>)))))"

subsection \<open>drive and _setupDiscovery\<close>

text \<open>
  \<open>_setupDiscovery\<close> (lines 212 to 220) is called by \<open>drive\<close> without \<open>await\<close>. It
  runs up to its first \<open>await\<close> inside the call (\<open>swarm.join\<close>, \<open>drive.findingPeers()\<close>),
  and its continuation (\<open>swarm.flush()\<close>) runs when \<open>drive\<close> next suspends, which is at
  \<open>await drive.update()\<close>, after \<open>drive.update()\<close> has been called.
\<close>

definition setupDiscovery_call :: "slashdrive \<Rightarrow> slashtag \<Rightarrow> slashtag" where
  "setupDiscovery_call d s =
    (let s1 = (case swarm s of
                 None \<Rightarrow> s
               | Some sw \<Rightarrow> s\<lparr>trace := trace s @ [Swarm_join (discoveryKey d)]\<rparr>)
     in s1\<lparr>trace := trace s1 @ [Drive_findingPeers (drive_id d)]\<rparr>)"

definition setupDiscovery_resume :: "slashdrive \<Rightarrow> slashtag \<Rightarrow> slashtag" where
  "setupDiscovery_resume d s =
    (case swarm s of
       None \<Rightarrow> s
     | Some sw \<Rightarrow> s\<lparr>trace := trace s @ [Swarm_flush]\<rparr>)"

text \<open>
  Lines 194 to 204 of \<open>drive\<close>: what follows its \<open>await this.ready()\<close>.
  \<open>new SlashDrive\<close> makes a new object whatever the cache holds.
\<close>

definition drive_body :: "'j ext \<Rightarrow> drive_opts \<Rightarrow> slashtag \<Rightarrow> slashdrive \<times> slashtag" where
  "drive_body E opts s =
    (let (k, dk, w) = SlashDrive_resolve E (store_namespace (store s)) opts;
         d = \<lparr>drive_id = fresh s, drive_key = k, discoveryKey = dk, writable = w\<rparr>;
         s1 = s\<lparr>fresh := Suc (fresh s),
                trace := trace s @ [SlashDrive_new (drive_id d), Drive_ready (drive_id d)]\<rparr>
     in (case drives s1 (drive_key d) of
           Some existing \<Rightarrow> (existing, s1)
         | None \<Rightarrow>
            (let s2 = s1\<lparr>drives := (drives s1)(drive_key d \<mapsto> d)\<rparr>;
                 s3 = setupDiscovery_call d s2;
                 s4 = s3\<lparr>trace := trace s3 @ [Drive_update (drive_id d)]\<rparr>;
                 s5 = setupDiscovery_resume d s4
             in (d, s5))))"

subsection \<open>ready\<close>

text \<open>
  \<open>ready\<close> has its first \<open>await\<close> at line 75, after the test of \<open>this._ready\<close> and the
  call \<open>DHT.create\<close>; \<open>this._ready\<close> is assigned at line 82, after that \<open>await\<close>.
  \<open>ready_call\<close> is the part of a call that runs before it first suspends, and
  \<open>ready_resume\<close> what runs once the DHT is there (lines 76 to 92). At line 84
  \<open>ready\<close> calls \<open>drive\<close>, whose own \<open>await this.ready()\<close> finds \<open>this._ready\<close> set
  at line 82 and returns at line 73: so \<open>ready_resume\<close> continues with \<open>drive_body\<close>
  (lemma \<open>drive_when_ready\<close> below).
\<close>

datatype ready_task = Ready_returned | Ready_awaiting_DHT

definition ready_call :: "slashtag \<Rightarrow> ready_task \<times> slashtag" where
  "ready_call s =
    (if ready_flag s then (Ready_returned, s)
     else (Ready_awaiting_DHT, s\<lparr>trace := trace s @ [DHT_create]\<rparr>))"

text \<open>The options of the default drive: \<open>{ key: this.key, keyPair: this.keyPair }\<close>.\<close>

definition publicDrive_opts :: "slashtag \<Rightarrow> drive_opts" where
  "publicDrive_opts s = \<lparr>dopt_name = None, dopt_encrypted = None, dopt_key = Some (key s),
                         dopt_keyPair = keyPair s, dopt_encryptionKey = None\<rparr>"

definition ready_resume :: "'j ext \<Rightarrow> slashtag \<Rightarrow> slashtag" where
  "ready_resume E s =
    (let s1 = s\<lparr>swarm := Some \<lparr>swarm_id = fresh s, allConnections = (\<lambda>_. None),
                                 peers = (\<lambda>_. None)\<rparr>,
                fresh := Suc (fresh s),
                trace := trace s @ [Hyperswarm_new, Swarm_on_connection]\<rparr>;
         s2 = s1\<lparr>ready_flag := True\<rparr>;
         (d, s3) = drive_body E (publicDrive_opts s2) s2
     in s3\<lparr>publicDrive := Some d\<rparr>)"

text \<open>One call of \<open>ready\<close> run to its end with nothing else scheduled in between.\<close>

definition ready :: "'j ext \<Rightarrow> slashtag \<Rightarrow> slashtag" where
  "ready E s =
    (case ready_call s of
       (Ready_returned, s1) \<Rightarrow> s1
     | (Ready_awaiting_DHT, s1) \<Rightarrow> ready_resume E s1)"


subsection \<open>listen and connect\<close>

definition listen :: "'j ext \<Rightarrow> slashtag \<Rightarrow> (error + unit) \<times> slashtag" where
  "listen E s =
    (if remote s then (Inl Cannot_listen_remote, s)
     else
       (let s1 = ready E s
        in (case swarm s1 of
              None \<Rightarrow> (Inl TypeError, s1)
            | Some sw \<Rightarrow> (Inr (), s1\<lparr>trace := trace s1 @ [Swarm_listen]\<rparr>))))"

text \<open>The argument of \<open>connect\<close>: \<open>Uint8Array | SlashURL | string\<close>.\<close>

datatype target = Key bytes | URL_string string | URL_object slashurl

definition resolve_target :: "'j ext \<Rightarrow> target \<Rightarrow> error + bytes" where
  "resolve_target E t =
    (case t of
       Key k \<Rightarrow> Inr k
     | URL_string u \<Rightarrow> map_sum id slashtag_key (SlashURL_parse E u)
     | URL_object u \<Rightarrow> Inr (slashtag_key u))"

text \<open>
  What \<open>connect\<close> resolves to: the registered connection with its peer info, or the
  promise of \<open>catchConnection\<close>, which the transport settles later, or \<open>undefined\<close>
  when there is no swarm.
\<close>

datatype connect_result =
    Connected socket "peerinfo option"
  | Awaiting bytes
  | Undefined

text \<open>
  Modelled from the spec: \<open>catchConnection\<close> of \<open>utils.js\<close>, which is not among the
  sources. It "issues a directed connect-and-wait-for-open request to the session and
  returns once the connection is open": the call is logged and its promise stays pending
  until the transport opens the connection.
\<close>

definition catchConnection :: "bytes \<Rightarrow> slashtag \<Rightarrow> connect_result \<times> slashtag" where
  "catchConnection k s = (Awaiting k, s\<lparr>trace := trace s @ [CatchConnection k]\<rparr>)"

definition connect :: "'j ext \<Rightarrow> target \<Rightarrow> slashtag \<Rightarrow> (error + connect_result) \<times> slashtag" where
  "connect E t s =
    (if remote s then (Inl Cannot_connect_remote, s)
     else
       (case resolve_target E t of
          Inl e \<Rightarrow> (Inl e, s)
        | Inr k \<Rightarrow>
           (if k = key s then (Inl Cannot_connect_self, s)
            else
              (let s1 = ready E s
               in (case swarm s1 of
                     None \<Rightarrow> (Inr Undefined, s1)
                   | Some sw \<Rightarrow>
                      (case allConnections sw k of
                         Some c \<Rightarrow> (Inr (Connected c (peers sw (hex k))), s1)
                       | None \<Rightarrow>
                          (let (r, s2) = catchConnection k s1
                           in (Inr r, s2\<lparr>trace := trace s2 @ [Swarm_joinPeer k]\<rparr>))))))))"

subsection \<open>setProfile and getProfile\<close>

text \<open>
  Modelled from the spec: \<open>put\<close> and \<open>get\<close> of \<open>SlashDrive\<close>, imported from
  \<open>@synonymdev/slashdrive\<close> and not among the sources. "\<open>Drive.get(key) -> bytes|null\<close>,
  \<open>Drive.put(key, bytes)\<close>": \<open>put\<close> stores the bytes under the path in the drive,
  \<open>get\<close> returns what is stored there or null. A handle that does not accept writes
  rejects \<open>put\<close>.
\<close>

definition SlashDrive_put ::
    "slashdrive \<Rightarrow> string \<Rightarrow> bytes \<Rightarrow> slashtag \<Rightarrow> (error + unit) \<times> slashtag" where
  "SlashDrive_put d path v s =
    (let s1 = s\<lparr>trace := trace s @ [Drive_put (drive_id d) path v]\<rparr>
     in if writable d
        then (Inr (),
              s1\<lparr>store := (store s1)\<lparr>store_data :=
                    (store_data (store s1))(drive_key d :=
                       (store_data (store s1) (drive_key d))(path \<mapsto> v))\<rparr>\<rparr>)
        else (Inl Drive_not_writable, s1))"

definition SlashDrive_get :: "slashdrive \<Rightarrow> string \<Rightarrow> slashtag \<Rightarrow> bytes option \<times> slashtag" where
  "SlashDrive_get d path s =
    (store_data (store s) (drive_key d) path,
     s\<lparr>trace := trace s @ [Drive_get (drive_id d) path]\<rparr>)"

definition setProfile :: "'j ext \<Rightarrow> 'j \<Rightarrow> slashtag \<Rightarrow> (error + unit) \<times> slashtag" where
  "setProfile E profile s =
    (let s1 = ready E s
     in (case publicDrive s1 of
           None \<Rightarrow> (Inr (), s1)
         | Some d \<Rightarrow>
            SlashDrive_put d DRIVE_KEYS_profile (b4a_from E (JSON_stringify E profile)) s1))"

definition getProfile :: "'j ext \<Rightarrow> slashtag \<Rightarrow> (error + 'j option) \<times> slashtag" where
  "getProfile E s =
    (let s1 = ready E s;
         (result, s2) = (case publicDrive s1 of
                           None \<Rightarrow> (None, s1)
                         | Some d \<Rightarrow> SlashDrive_get d DRIVE_KEYS_profile s1)
     in (case result of
           None \<Rightarrow> (Inr None, s2)
         | Some bs \<Rightarrow> (map_sum id Some (JSON_parse E (b4a_toString E bs)), s2)))"

subsection \<open>close\<close>

definition close :: "slashtag \<Rightarrow> slashtag" where
  "close s =
    (if closed s then s
     else
       (let s1 = s\<lparr>closed := True, trace := trace s @ [Closed_set]\<rparr>;
            s2 = s1\<lparr>trace := trace s1 @ [Emit_close]\<rparr>
        in (case swarm s2 of
              None \<Rightarrow> s2
            | Some sw \<Rightarrow>
               (let s3 = s2\<lparr>trace := trace s2 @ [Swarm_destroy]\<rparr>
                in s3\<lparr>store := (store s3)\<lparr>store_closed := True\<rparr>,
                      trace := trace s3 @ [Store_close]\<rparr>))))"

subsection \<open>_handleConnection and the transport\<close>

definition setupProtocols :: "socket \<Rightarrow> slashtag \<Rightarrow> slashtag" where
  "setupProtocols c s =
    (case protocols s of
       None \<Rightarrow> s
     | Some m \<Rightarrow>
        s\<lparr>trace := trace s @ map (\<lambda>(n, p). Protocol_createChannel n (sock_id c)) m\<rparr>)"

text \<open>
  Lines 248 to 271. The handler returns the peer info with the remote identity
  attached, since the source writes \<open>peerInfo.slashtag\<close> on the caller's object.
\<close>

definition handleConnection :: "socket \<Rightarrow> peerinfo \<Rightarrow> slashtag \<Rightarrow> peerinfo \<times> slashtag" where
  "handleConnection c pinfo s =
    (let s1 = s\<lparr>trace := trace s @ [Store_replicate (sock_id c),
                                     Slashtag_new_remote (pi_publicKey pinfo),
                                     Socket_on_error (sock_id c),
                                     Socket_on_close (sock_id c)]\<rparr>;
         pinfo1 = pinfo\<lparr>pi_slashtag := Some (pi_publicKey pinfo)\<rparr>;
         s2 = setupProtocols c s1
     in (pinfo1, s2\<lparr>trace := trace s2 @ [Emit_connection (sock_id c)]\<rparr>))"

text \<open>
  The transport's side of a connection, as the class relies on it at lines 117 to 121:
  when Hyperswarm has opened a connection it is found in \<open>swarm._allConnections\<close> under
  the remote public key and its peer info in \<open>swarm.peers\<close> under the hex of that key,
  and the \<open>'connection'\<close> listener wired at line 81 runs. When a connection closes it
  leaves \<open>swarm._allConnections\<close>.
\<close>

definition swarm_connection_opened :: "socket \<Rightarrow> peerinfo \<Rightarrow> slashtag \<Rightarrow> slashtag" where
  "swarm_connection_opened c pinfo s =
    (case swarm s of
       None \<Rightarrow> s
     | Some sw \<Rightarrow>
        (let (pinfo1, s1) = handleConnection c pinfo s
         in s1\<lparr>swarm := Some (sw\<lparr>allConnections := (allConnections sw)(remotePublicKey c \<mapsto> c),
                                 peers := (peers sw)(hex (pi_publicKey pinfo) \<mapsto> pinfo1)\<rparr>)\<rparr>))"

definition swarm_connection_closed :: "bytes \<Rightarrow> slashtag \<Rightarrow> slashtag" where
  "swarm_connection_closed k s =
    (case swarm s of
       None \<Rightarrow> s
     | Some sw \<Rightarrow> s\<lparr>swarm := Some (sw\<lparr>allConnections := (allConnections sw)(k := None)\<rparr>)\<rparr>)"


section \<open>The Slashtag class of packages/slashtag/index.js\<close>

text \<open>
  The repository holds a second, smaller class of the same name, with no \<open>ready\<close>, no
  swarm, no drives and no protocols: it connects through the DHT and keeps its
  connections in \<open>this.sockets\<close>. Its \<open>connect\<close> and \<open>close\<close> are embedded here with the
  prefix \<open>pkg_\<close>; \<open>pkg_sockets\<close> is the HashMap in insertion order.
\<close>

datatype pkg_event =
    Corestore_close           \<comment> \<open>\<open>this.corestore.close()\<close>\<close>
  | Corestore_replicate nat   \<comment> \<open>\<open>this.corestore.replicate(socket)\<close>\<close>
  | Server_close              \<comment> \<open>\<open>this.server.close()\<close>\<close>
  | DHT_connect bytes         \<comment> \<open>\<open>this.dht.connect(_key, { keyPair })\<close>\<close>
  | DHT_destroy               \<comment> \<open>\<open>this.dht.destroy()\<close>\<close>
  | Socket_destroy nat        \<comment> \<open>\<open>socket.destroy()\<close>\<close>
  | Socket_on nat string      \<comment> \<open>\<open>socket.on(event, handler)\<close>\<close>
  | Socket_once nat string    \<comment> \<open>\<open>socket.once(event, handler)\<close>\<close>
  | RemoveAllListeners        \<comment> \<open>\<open>this.removeAllListeners()\<close>\<close>
  | Closed_assigned           \<comment> \<open>the assignment \<open>this.closed = true\<close>\<close>
  | Emit string               \<comment> \<open>\<open>this.emit(event, ...)\<close>\<close>

record pkg_slashtag =
  pkg_keyPair :: keypair
  pkg_key :: bytes
  pkg_shouldDestroyDHT :: bool
  pkg_sockets :: "(bytes \<times> socket) list"
  pkg_listening :: bool
  pkg_closing :: bool
  pkg_closed :: bool
  pkg_fresh :: nat
  pkg_trace :: "pkg_event list"

text \<open>
  Lines 18 to 39, for \<open>opts.keyPair\<close>, whether \<open>opts.dht\<close> was given, and the key pair
  that \<open>keyPair()\<close> generates when none is given.
\<close>

definition pkg_constructor :: "keypair option \<Rightarrow> bool \<Rightarrow> keypair \<Rightarrow> pkg_slashtag" where
  "pkg_constructor opts_keyPair opts_dht generated =
    (let kp = (case opts_keyPair of Some k \<Rightarrow> k | None \<Rightarrow> generated)
     in \<lparr>pkg_keyPair = kp, pkg_key = publicKey kp, pkg_shouldDestroyDHT = (\<not> opts_dht),
         pkg_sockets = [], pkg_listening = False, pkg_closing = False, pkg_closed = False,
         pkg_fresh = 0, pkg_trace = []\<rparr>)"

text \<open>\<open>parse\<close> and \<open>decode\<close> of \<open>@synonymdev/slashtags-url\<close>, parameters of \<open>connect\<close>.\<close>

record pkg_url =
  url_parse :: "string \<Rightarrow> error + bytes"
  url_decode :: "string \<Rightarrow> error + bytes"

datatype pkg_target = Raw_key bytes | Text_key string

definition pkg_resolve :: "pkg_url \<Rightarrow> pkg_target \<Rightarrow> error + bytes" where
  "pkg_resolve U t =
    (case t of
       Raw_key k \<Rightarrow> Inr k
     | Text_key x \<Rightarrow> if take 5 x = ''slash'' then url_parse U x else url_decode U x)"

definition pkg_handleConnection :: "socket \<Rightarrow> pkg_slashtag \<Rightarrow> socket \<times> pkg_slashtag" where
  "pkg_handleConnection c s =
    (c, s\<lparr>pkg_sockets := AList.update (remotePublicKey c) c (pkg_sockets s),
          pkg_trace := pkg_trace s @
            [Corestore_replicate (sock_id c), Socket_on (sock_id c) ''error'',
             Socket_on (sock_id c) ''close'', Socket_once (sock_id c) ''open'',
             Emit ''connection'']\<rparr>)"

text \<open>
  Lines 56 to 70. \<open>dht.connect(_key, ...)\<close> returns a new socket whose
  \<open>remotePublicKey\<close> is the key it was asked to connect to.
\<close>

definition pkg_connect ::
    "pkg_url \<Rightarrow> pkg_target \<Rightarrow> pkg_slashtag \<Rightarrow> (error + socket) \<times> pkg_slashtag" where
  "pkg_connect U t s =
    (case pkg_resolve U t of
       Inl e \<Rightarrow> (Inl e, s)
     | Inr k \<Rightarrow>
        (case map_of (pkg_sockets s) k of
           Some existing \<Rightarrow> (Inr existing, s)
         | None \<Rightarrow>
            (let c = \<lparr>sock_id = pkg_fresh s, remotePublicKey = k\<rparr>;
                 s1 = s\<lparr>pkg_fresh := Suc (pkg_fresh s),
                        pkg_trace := pkg_trace s @ [DHT_connect k]\<rparr>;
                 (r, s2) = pkg_handleConnection c s1
             in (Inr r, s2))))"

text \<open>The \<open>'close'\<close> handler that \<open>_handleConnection\<close> puts on a socket (line 114).\<close>

definition pkg_socket_closed :: "socket \<Rightarrow> pkg_slashtag \<Rightarrow> pkg_slashtag" where
  "pkg_socket_closed c s = s\<lparr>pkg_sockets := AList.delete (remotePublicKey c) (pkg_sockets s)\<rparr>"

definition pkg_unlisten :: "pkg_slashtag \<Rightarrow> pkg_slashtag" where
  "pkg_unlisten s = s\<lparr>pkg_listening := False, pkg_trace := pkg_trace s @ [Server_close]\<rparr>"

text \<open>
  \<open>_close\<close> (lines 91 to 104) is an async function called by \<open>close\<close> without \<open>await\<close>:
  it runs up to its first \<open>await\<close>, where \<open>corestore.close()\<close> has been called
  (\<open>pkg_close_call\<close>); \<open>close\<close> then stores the promise and removes all listeners, and the
  rest of \<open>_close\<close> (\<open>pkg_close_resume\<close>) runs after that.
\<close>

definition pkg_close_call :: "pkg_slashtag \<Rightarrow> pkg_slashtag" where
  "pkg_close_call s = s\<lparr>pkg_trace := pkg_trace s @ [Corestore_close]\<rparr>"

definition pkg_close_resume :: "pkg_slashtag \<Rightarrow> pkg_slashtag" where
  "pkg_close_resume s =
    (let s1 = pkg_unlisten s;
         s2 = s1\<lparr>pkg_trace := pkg_trace s1 @
                  map (\<lambda>(k, c). Socket_destroy (sock_id c)) (pkg_sockets s1)\<rparr>;
         s3 = (if pkg_shouldDestroyDHT s2
               then s2\<lparr>pkg_trace := pkg_trace s2 @ [DHT_destroy]\<rparr> else s2);
         s4 = s3\<lparr>pkg_closed := True, pkg_trace := pkg_trace s3 @ [Closed_assigned]\<rparr>
     in s4\<lparr>pkg_trace := pkg_trace s4 @ [Emit ''close'']\<rparr>)"

definition pkg_close :: "pkg_slashtag \<Rightarrow> pkg_slashtag" where
  "pkg_close s =
    (if pkg_closing s then s
     else
       (let s1 = pkg_close_call s;
            s2 = s1\<lparr>pkg_closing := True\<rparr>;
            s3 = s2\<lparr>pkg_trace := pkg_trace s2 @ [RemoveAllListeners]\<rparr>
        in pkg_close_resume s3))"


section \<open>Definitions used to state the properties\<close>

text \<open>The calls a method made: what it appended to the log of the state it started from.\<close>

definition calls_since :: "slashtag \<Rightarrow> slashtag \<Rightarrow> event list" where
  "calls_since s s' = drop (length (trace s)) (trace s')"


text \<open>
  \<open>n\<close> calls of \<open>ready\<close> issued before any of them is resumed (as
  \<open>Promise.all([s.ready(), s.ready()])\<close> does for \<open>n = 2\<close>): each call runs up to its
  \<open>await\<close> at line 75, then the calls are resumed one after the other.
\<close>

definition ready_concurrently :: "'j ext \<Rightarrow> nat \<Rightarrow> slashtag \<Rightarrow> slashtag" where
  "ready_concurrently E n s = (ready_resume E ^^ n) (((\<lambda>t. snd (ready_call t)) ^^ n) s)"

text \<open>
  The spec's \<open>create(keyPair?, publicKey?, url?)\<close>, in its words: "resolves a single
  canonical public key from whichever of keyPair/publicKey/url was supplied, in that
  precedence; fails with \<open>InvalidIdentity\<close> if none yields a key" (\<open>None\<close> here).
\<close>

text \<open>
  What lines 75 to 82 of \<open>ready\<close> do to an identity that is not ready, up to the call
  of \<open>drive\<close>: a DHT, a swarm with its listener, and the flag.
\<close>

definition session_new :: "slashtag \<Rightarrow> slashtag" where
  "session_new s = s\<lparr>swarm := Some \<lparr>swarm_id = fresh s, allConnections = (\<lambda>_. None),
                                     peers = (\<lambda>_. None)\<rparr>,
                     fresh := Suc (fresh s),
                     trace := trace s @ [DHT_create, Hyperswarm_new, Swarm_on_connection],
                     ready_flag := True\<rparr>"

text \<open>
  A profile value is JSON-serializable when writing it as JSON text, to bytes and back
  gives the value again; the default drive is the one \<open>ready()\<close> leaves in
  \<open>publicDrive\<close>.
\<close>


definition JSON_serializable :: "'j ext \<Rightarrow> 'j \<Rightarrow> bool" where
  "JSON_serializable E p \<longleftrightarrow>
     JSON_parse E (b4a_toString E (b4a_from E (JSON_stringify E p))) = Inr p"

definition default_drive_writable :: "'j ext \<Rightarrow> slashtag \<Rightarrow> bool" where
  "default_drive_writable E s =
    (case publicDrive (ready E s) of Some d \<Rightarrow> writable d | None \<Rightarrow> False)"

definition profile_never_set :: "'j ext \<Rightarrow> slashtag \<Rightarrow> bool" where
  "profile_never_set E s =
    (case publicDrive (ready E s) of
       Some d \<Rightarrow> store_data (store s) (drive_key d) DRIVE_KEYS_profile = None
     | None \<Rightarrow> True)"



section \<open>Concrete identities\<close>

text \<open>
  An environment and two identities to evaluate the methods on. Text is taken byte by
  byte, a URL is \<open>slash:\<close> followed by the key, a drive opened by key is writable when
  it is given a key pair, and the JSON codec knows one profile. Keys are shortened to
  four bytes.
\<close>

definition text_bytes :: "string \<Rightarrow> bytes" where
  "text_bytes t = map (\<lambda>c. of_nat (of_char c)) t"

definition bytes_text :: "bytes \<Rightarrow> string" where
  "bytes_text bs = map (\<lambda>b. char_of (unat b)) bs"

definition example_ext :: "(string \<times> string) list ext" where
  "example_ext =
    \<lparr>SlashURL_parse = (\<lambda>u. if take 6 u = ''slash:'' \<and> 6 < length u
                           then Inr (SlashURL (text_bytes (drop 6 u))) else Inl Invalid_URL),
     SlashDrive_resolve = (\<lambda>ns opts.
        (case dopt_key opts of
           Some k \<Rightarrow> (k, rev k, dopt_keyPair opts \<noteq> None)
         | None \<Rightarrow> (concat ns @ text_bytes (case dopt_name opts of Some n \<Rightarrow> n | None \<Rightarrow> []),
                    rev (concat ns), True))),
     JSON_stringify = (\<lambda>p. if p = [(''name'', ''alice'')] then ''{name:alice}'' else ''{}''),
     JSON_parse = (\<lambda>t. if t = ''{name:alice}'' then Inr [(''name'', ''alice'')]
                        else if t = ''{}'' then Inr [] else Inl SyntaxError),
     b4a_from = text_bytes,
     b4a_toString = bytes_text\<rparr>"

definition alice_keyPair :: keypair where
  "alice_keyPair = \<lparr>publicKey = [0xA1, 0xA2, 0xA3, 0xA4], secretKey = [0x5A, 0x5B, 0x5C, 0x5D]\<rparr>"

definition no_opts :: slashtag_opts where
  "no_opts = \<lparr>opt_url = None, opt_key = None, opt_keyPair = None, opt_store = None,
              opt_protocols = None, opt_swarmOpts = None\<rparr>"

definition alice_opts :: slashtag_opts where
  "alice_opts = no_opts\<lparr>opt_keyPair := Some alice_keyPair\<rparr>"

definition alice :: slashtag where
  "alice = projr (constructor example_ext alice_opts)"

definition bob_key :: bytes where
  "bob_key = [0xB1, 0xB2, 0xB3, 0xB4]"

definition bob_remote :: slashtag where
  "bob_remote = projr (constructor example_ext (no_opts\<lparr>opt_key := Some bob_key\<rparr>))"

definition chat :: protocol_class where
  "chat = ProtocolClass ''chat''"

text \<open>The connection to \<open>bob_key\<close> that the transport opens, and its peer info.\<close>

definition bob_socket :: socket where
  "bob_socket = \<lparr>sock_id = 7, remotePublicKey = bob_key\<rparr>"

definition bob_peer :: peerinfo where
  "bob_peer = \<lparr>pi_publicKey = bob_key, pi_slashtag = None\<rparr>"


definition alice_connecting :: slashtag where
  "alice_connecting = snd (connect example_ext (Key bob_key) alice)"

definition alice_connected :: slashtag where
  "alice_connected = swarm_connection_opened bob_socket bob_peer alice_connecting"


section \<open>Basic facts about the methods\<close>

lemma ready_when_ready: "ready_flag s \<Longrightarrow> ready E s = s"
  by (simp add: ready_def ready_call_def)



lemma drive_body_new:
  assumes "SlashDrive_resolve E (store_namespace (store s)) opts = (k, dk, w)"
    and "drives s k = None" and "swarm s = Some sw"
  shows "drive_body E opts s =
    (\<lparr>drive_id = fresh s, drive_key = k, discoveryKey = dk, writable = w\<rparr>,
     s\<lparr>fresh := Suc (fresh s),
       drives := (drives s)(k \<mapsto> \<lparr>drive_id = fresh s, drive_key = k, discoveryKey = dk,
                                  writable = w\<rparr>),
       trace := trace s @ [SlashDrive_new (fresh s), Drive_ready (fresh s), Swarm_join dk,
                           Drive_findingPeers (fresh s), Drive_update (fresh s), Swarm_flush]\<rparr>)"
  using assms
  by (simp add: drive_body_def Let_def setupDiscovery_call_def setupDiscovery_resume_def)

lemma drive_body_frame:
  "ready_flag (snd (drive_body E opts s)) = ready_flag s \<and>
   swarm (snd (drive_body E opts s)) = swarm s \<and>
   store (snd (drive_body E opts s)) = store s \<and>
   remote (snd (drive_body E opts s)) = remote s \<and>
   key (snd (drive_body E opts s)) = key s \<and>
   keyPair (snd (drive_body E opts s)) = keyPair s \<and>
   closed (snd (drive_body E opts s)) = closed s \<and>
   protocols (snd (drive_body E opts s)) = protocols s \<and>
   publicDrive (snd (drive_body E opts s)) = publicDrive s"
  by (simp add: drive_body_def Let_def setupDiscovery_call_def setupDiscovery_resume_def
        split: prod.splits option.splits)


lemma ready_frame:
  "ready_flag (ready E s) \<and> store (ready E s) = store s \<and> remote (ready E s) = remote s \<and>
   key (ready E s) = key s \<and> keyPair (ready E s) = keyPair s \<and>
   closed (ready E s) = closed s \<and> protocols (ready E s) = protocols s"
  by (simp add: ready_def ready_call_def ready_resume_def drive_body_frame split_def Let_def)

lemma ready_swarm: "\<not> ready_flag s \<Longrightarrow> \<exists>sw. swarm (ready E s) = Some sw"
  by (simp add: ready_def ready_call_def ready_resume_def drive_body_frame split_def Let_def)




lemma protocol_frame:
  "swarm (snd (protocol P s)) = swarm s \<and> closed (snd (protocol P s)) = closed s \<and>
   store (snd (protocol P s)) = store s \<and> ready_flag (snd (protocol P s)) = ready_flag s \<and>
   remote (snd (protocol P s)) = remote s \<and> key (snd (protocol P s)) = key s"
  by (simp add: protocol_def Let_def split: option.splits)

lemma protocol_trace:
  "set (trace (snd (protocol P s))) \<subseteq> set (trace s) \<union> range Protocol_new"
  by (auto simp add: protocol_def Let_def split: option.splits)

lemma protocol_calls_frame:
  "swarm (protocol_calls Ps s) = swarm s \<and>
   closed (protocol_calls Ps s) = closed s \<and>
   store (protocol_calls Ps s) = store s \<and>
   ready_flag (protocol_calls Ps s) = ready_flag s \<and>
   remote (protocol_calls Ps s) = remote s \<and>
   key (protocol_calls Ps s) = key s"
  unfolding protocol_calls_def
  by (induction Ps arbitrary: s) (simp_all add: protocol_frame)

lemma protocol_calls_trace:
  "set (trace (protocol_calls Ps s)) \<subseteq> set (trace s) \<union> range Protocol_new"
  unfolding protocol_calls_def
proof (induction Ps arbitrary: s)
  case Nil
  then show ?case by simp
next
  case (Cons P Ps)
  have "set (trace (fold (\<lambda>P t. snd (protocol P t)) Ps (snd (protocol P s))))
          \<subseteq> set (trace (snd (protocol P s))) \<union> range Protocol_new"
    by (rule Cons.IH)
  with protocol_trace [of P s] show ?case by auto
qed

text \<open>A newly constructed identity has no session, is open, and has only made protocols.\<close>

lemma constructor_fresh:
  assumes "constructor E opts = Inr s"
  shows "swarm s = None \<and> \<not> closed s \<and> \<not> ready_flag s \<and>
         set (trace s) \<subseteq> range Protocol_new \<and>
         store s = namespace (key s) (case opt_store opts of Some st \<Rightarrow> st | None \<Rightarrow> new_Corestore)"
proof -
  from assms obtain u k Ps where
      s: "s = constructor_fields opts u k \<or>
          s = protocol_calls Ps ((constructor_fields opts u k)\<lparr>protocols := Some []\<rparr>)"
    by (auto simp add: constructor_def Let_def split: sum.splits option.splits if_splits)
  define s0 where "s0 = (constructor_fields opts u k)\<lparr>protocols := Some []\<rparr>"
  have s0: "swarm s0 = None" "\<not> closed s0" "\<not> ready_flag s0" "trace s0 = []"
      "store s0 = namespace (key s0) (case opt_store opts of Some st \<Rightarrow> st | None \<Rightarrow> new_Corestore)"
    by (simp_all add: s0_def constructor_fields_def)
  show ?thesis
  proof (rule disjE [OF s])
    assume "s = constructor_fields opts u k"
    then show ?thesis by (simp add: constructor_fields_def)
  next
    assume "s = protocol_calls Ps ((constructor_fields opts u k)\<lparr>protocols := Some []\<rparr>)"
    then have "s = protocol_calls Ps s0" by (simp add: s0_def)
    with protocol_calls_trace [of Ps s0] protocol_calls_frame [of Ps s0] s0
    show ?thesis by auto
  qed
qed

lemma alice_constructed: "constructor example_ext alice_opts = Inr alice"
  by (simp add: alice_def alice_opts_def constructor_def constructor_url_def constructor_key_def
        no_opts_def Let_def constructor_fields_def)

lemma alice_eq:
  "alice = \<lparr>keyPair = Some alice_keyPair, remote = False,
            url = SlashURL [0xA1, 0xA2, 0xA3, 0xA4], key = [0xA1, 0xA2, 0xA3, 0xA4],
            swarmOpts = None,
            store = \<lparr>store_namespace = [[0xA1, 0xA2, 0xA3, 0xA4]], store_closed = False,
                     store_data = (\<lambda>_ _. None)\<rparr>,
            drives = (\<lambda>_. None), protocols = Some [], closed = False, ready_flag = False,
            swarm = None, publicDrive = None, fresh = 0, trace = []\<rparr>"
  by (simp add: alice_def alice_opts_def constructor_def constructor_fields_def
        constructor_url_def constructor_key_def no_opts_def
        alice_keyPair_def namespace_def new_Corestore_def protocol_calls_def)

lemma bob_remote_eq:
  "bob_remote = \<lparr>keyPair = None, remote = True,
            url = SlashURL [0xB1, 0xB2, 0xB3, 0xB4], key = [0xB1, 0xB2, 0xB3, 0xB4],
            swarmOpts = None,
            store = \<lparr>store_namespace = [[0xB1, 0xB2, 0xB3, 0xB4]], store_closed = False,
                     store_data = (\<lambda>_ _. None)\<rparr>,
            drives = (\<lambda>_. None), protocols = None, closed = False, ready_flag = False,
            swarm = None, publicDrive = None, fresh = 0, trace = []\<rparr>"
  by (simp add: bob_remote_def constructor_def constructor_fields_def constructor_url_def
        constructor_key_def no_opts_def bob_key_def namespace_def new_Corestore_def)


section \<open>Operations after close\<close>













section \<open>Concurrent calls of ready\<close>

lemma ready_calls_trace:
  "\<not> ready_flag s \<Longrightarrow>
   \<not> ready_flag (((\<lambda>t. snd (ready_call t)) ^^ n) s) \<and>
   trace (((\<lambda>t. snd (ready_call t)) ^^ n) s) = trace s @ replicate n DHT_create"
  by (induction n) (simp_all add: ready_call_def replicate_append_same)

lemma ready_resume_counts:
  "count_list (trace (ready_resume E s)) DHT_create = count_list (trace s) DHT_create \<and>
   count_list (trace (ready_resume E s)) Hyperswarm_new = Suc (count_list (trace s) Hyperswarm_new)"
  by (simp add: ready_resume_def publicDrive_opts_def drive_body_def Let_def
        setupDiscovery_call_def setupDiscovery_resume_def split: option.splits prod.splits)

lemma ready_resumes_counts:
  "count_list (trace ((ready_resume E ^^ n) s)) DHT_create = count_list (trace s) DHT_create \<and>
   count_list (trace ((ready_resume E ^^ n) s)) Hyperswarm_new =
     count_list (trace s) Hyperswarm_new + n"
  by (induction n) (simp_all add: ready_resume_counts)

lemma count_list_replicate: "count_list (replicate n x) y = (if x = y then n else 0)"
  by (induction n) auto

text \<open>
  \<open>n\<close> calls of \<open>ready\<close> issued together on an identity that is not ready create \<open>n\<close>
  DHTs and \<open>n\<close> swarms: every call passes the test of line 73, because the flag is only
  set at line 82, after the \<open>await\<close> of line 75.
\<close>

lemma ready_concurrently_counts:
  assumes "\<not> ready_flag s"
  shows "count_list (trace (ready_concurrently E n s)) DHT_create =
           count_list (trace s) DHT_create + n \<and>
         count_list (trace (ready_concurrently E n s)) Hyperswarm_new =
           count_list (trace s) Hyperswarm_new + n"
  using ready_calls_trace [OF assms, of n]
  by (simp add: ready_concurrently_def ready_resumes_counts count_list_replicate)

text \<open>
  C2, at a failing input. Two calls of \<open>ready()\<close> on the new identity \<open>alice\<close>, the
  second issued before the first is resumed: both calls find \<open>this._ready\<close> unset and
  call \<open>DHT.create\<close>, and when they are resumed each constructs a Hyperswarm and wires
  the \<open>'connection'\<close> listener. Two DHTs, two swarms and two listeners are created where
  the claim says one; only the default drive is announced once, the second call
  constructing a second handle (id 3) and finding the first in the cache.
\<close>

theorem ready_twice_concurrently:
  "ready_call alice = (Ready_awaiting_DHT, alice\<lparr>trace := [DHT_create]\<rparr>) \<and>
   ready_call (alice\<lparr>trace := [DHT_create]\<rparr>) =
     (Ready_awaiting_DHT, alice\<lparr>trace := [DHT_create, DHT_create]\<rparr>) \<and>
   trace (ready_resume example_ext
           (ready_resume example_ext (alice\<lparr>trace := [DHT_create, DHT_create]\<rparr>))) =
     [DHT_create, DHT_create,
      Hyperswarm_new, Swarm_on_connection, SlashDrive_new 1, Drive_ready 1,
      Swarm_join [0xA4, 0xA3, 0xA2, 0xA1], Drive_findingPeers 1, Drive_update 1, Swarm_flush,
      Hyperswarm_new, Swarm_on_connection, SlashDrive_new 3, Drive_ready 3]"
  by (simp add: alice_eq ready_call_def ready_resume_def publicDrive_opts_def drive_body_def example_ext_def Let_def
        setupDiscovery_call_def setupDiscovery_resume_def)


section \<open>Remote identities\<close>

text \<open>The three guarded methods throw before anything else happens.\<close>

lemma remote_guards:
  assumes "remote s"
  shows "listen E s = (Inl Cannot_listen_remote, s)"
    and "connect E t s = (Inl Cannot_connect_remote, s)"
    and "protocol P s = (Inl Cannot_register_protocol_remote, s)"
  using assms by (simp_all add: listen_def connect_def protocol_def)

text \<open>
  \<open>setProfile\<close> has no such guard: on an identity that is not ready it initializes the
  session first, and an error, if any, is not one of the remote-identity errors.
\<close>

lemma setProfile_never_guards:
  "\<not> ready_flag s \<Longrightarrow>
   ready_flag (snd (setProfile E p s)) \<and>
   (case fst (setProfile E p s) of Inl e \<Rightarrow> \<not> is_RemoteIdentityError e | Inr _ \<Rightarrow> True) \<and>
   DHT_create \<in> set (calls_since s (snd (setProfile E p s)))"
  apply (simp add: setProfile_def Let_def SlashDrive_put_def ready_frame calls_since_def
      split: option.splits)
  apply (simp add: ready_def ready_call_def ready_resume_def publicDrive_opts_def drive_body_def Let_def
      setupDiscovery_call_def setupDiscovery_resume_def split: option.splits prod.splits)
  done

text \<open>
  C3, at a failing input. On the remote identity \<open>bob_remote\<close>, built from a public key
  only, \<open>listen\<close>, \<open>connect\<close> and \<open>protocol\<close> throw their remote-identity error and leave
  the state as it was, as the claim says. \<open>setProfile\<close> does not: it runs \<open>ready()\<close>,
  which creates a DHT and a swarm and opens and announces the default drive, then
  calls \<open>put\<close> on that drive, and what fails is that \<open>put\<close>.
\<close>

theorem remote_setProfile:
  "remote bob_remote \<and>
   listen example_ext bob_remote = (Inl Cannot_listen_remote, bob_remote) \<and>
   connect example_ext (Key [0xA1, 0xA2, 0xA3, 0xA4]) bob_remote =
     (Inl Cannot_connect_remote, bob_remote) \<and>
   protocol chat bob_remote = (Inl Cannot_register_protocol_remote, bob_remote) \<and>
   fst (setProfile example_ext [(''name'', ''alice'')] bob_remote) = Inl Drive_not_writable \<and>
   trace (snd (setProfile example_ext [(''name'', ''alice'')] bob_remote)) =
     [DHT_create, Hyperswarm_new, Swarm_on_connection, SlashDrive_new 1, Drive_ready 1,
      Swarm_join [0xB4, 0xB3, 0xB2, 0xB1], Drive_findingPeers 1, Drive_update 1, Swarm_flush,
      Drive_put 1 ''profile.json'' (text_bytes ''{name:alice}'')] \<and>
   ready_flag (snd (setProfile example_ext [(''name'', ''alice'')] bob_remote))"
  by (simp add: bob_remote_eq listen_def connect_def protocol_def setProfile_def
        ready_def ready_call_def ready_resume_def publicDrive_opts_def drive_body_def example_ext_def Let_def
        setupDiscovery_call_def setupDiscovery_resume_def SlashDrive_put_def
        DRIVE_KEYS_profile_def)


section \<open>connect\<close>

lemma connect_registered:
  assumes "\<not> remote s" and "resolve_target E t = Inr X" and "X \<noteq> key s"
    and "ready_flag s" and "swarm s = Some sw" and "allConnections sw X = Some c"
  shows "connect E t s = (Inr (Connected c (peers sw (hex X))), s)"
  using assms by (simp add: connect_def ready_when_ready)

lemma handleConnection_frame:
  "swarm (snd (handleConnection c pinfo s)) = swarm s \<and>
   ready_flag (snd (handleConnection c pinfo s)) = ready_flag s \<and>
   remote (snd (handleConnection c pinfo s)) = remote s \<and>
   key (snd (handleConnection c pinfo s)) = key s \<and>
   fst (handleConnection c pinfo s) = pinfo\<lparr>pi_slashtag := Some (pi_publicKey pinfo)\<rparr>"
  by (simp add: handleConnection_def setupProtocols_def Let_def split: option.splits)

lemma swarm_connection_opened_fields:
  assumes "swarm s = Some sw"
  shows "swarm (swarm_connection_opened c pinfo s) =
           Some (sw\<lparr>allConnections := (allConnections sw)(remotePublicKey c \<mapsto> c),
                    peers := (peers sw)(hex (pi_publicKey pinfo) \<mapsto>
                                pinfo\<lparr>pi_slashtag := Some (pi_publicKey pinfo)\<rparr>)\<rparr>)"
    and "ready_flag (swarm_connection_opened c pinfo s) = ready_flag s"
    and "remote (swarm_connection_opened c pinfo s) = remote s"
    and "key (swarm_connection_opened c pinfo s) = key s"
  using assms handleConnection_frame [of c pinfo s]
  by (simp_all add: swarm_connection_opened_def split_def)

text \<open>
  C4. Let a local identity call \<open>connect\<close> with a target that resolves to a key \<open>X\<close>
  other than its own. If the call returns a connection (one is registered for \<open>X\<close>),
  a second call returns that same connection with its peer info and leaves the state as
  it is: nothing is added to the log, so no second \<open>catchConnection\<close> or \<open>joinPeer\<close>
  is issued and no session is created. If the call issues a connect request and the
  transport then opens the connection \<open>c\<close> to \<open>X\<close> (which is what the pending promise of
  the first call resolves to), a second call returns \<open>c\<close>, again leaving the state as
  it is.
\<close>

theorem connect_twice:
  assumes loc: "\<not> remote s" and tgt: "resolve_target E t = Inr X" and other: "X \<noteq> key s"
  shows "(fst (connect E t s) = Inr (Connected c0 p0) \<longrightarrow>
            connect E t (snd (connect E t s)) = (Inr (Connected c0 p0), snd (connect E t s))) \<and>
         (fst (connect E t s) = Inr (Awaiting X) \<and> remotePublicKey c = X \<and>
          pi_publicKey pinfo = X \<longrightarrow>
            connect E t (swarm_connection_opened c pinfo (snd (connect E t s))) =
              (Inr (Connected c (Some (pinfo\<lparr>pi_slashtag := Some X\<rparr>))),
               swarm_connection_opened c pinfo (snd (connect E t s))))"
proof (cases "swarm (ready E s)")
  case None
  then show ?thesis
    using assms by (simp add: connect_def Let_def)
next
  case (Some sw)
  note sw = this
  show ?thesis
  proof (cases "allConnections sw X")
    case None
    define s1 where
      "s1 = (ready E s)\<lparr>trace := trace (ready E s) @ [CatchConnection X, Swarm_joinPeer X]\<rparr>"
    from None sw assms have c1: "connect E t s = (Inr (Awaiting X), s1)"
      by (simp add: connect_def Let_def catchConnection_def s1_def)
    have s1: "swarm s1 = Some sw" "ready_flag s1" "\<not> remote s1" "key s1 = key s"
      using sw loc by (simp_all add: s1_def ready_frame)
    have "connect E t (swarm_connection_opened c pinfo s1) =
              (Inr (Connected c (Some (pinfo\<lparr>pi_slashtag := Some X\<rparr>))),
               swarm_connection_opened c pinfo s1)"
      if "remotePublicKey c = X" and "pi_publicKey pinfo = X"
    proof -
      have "connect E t (swarm_connection_opened c pinfo s1) =
          (Inr (Connected c
             (peers (sw\<lparr>allConnections := (allConnections sw)(remotePublicKey c \<mapsto> c),
                    peers := (peers sw)(hex (pi_publicKey pinfo) \<mapsto>
                                pinfo\<lparr>pi_slashtag := Some (pi_publicKey pinfo)\<rparr>)\<rparr>) (hex X))),
           swarm_connection_opened c pinfo s1)"
        using s1 tgt other that
        by (intro connect_registered)
           (simp_all add: swarm_connection_opened_fields [OF s1(1)])
      then show ?thesis using that by simp
    qed
    with c1 show ?thesis by simp
  next
    case (Some c1)
    with sw assms
    have "connect E t s = (Inr (Connected c1 (peers sw (hex X))), ready E s)"
      by (simp add: connect_def Let_def)
    moreover have "connect E t (ready E s) = (Inr (Connected c1 (peers sw (hex X))), ready E s)"
      using Some sw assms
      by (intro connect_registered) (simp_all add: ready_frame)
    ultimately show ?thesis by simp
  qed
qed

lemma alice_connecting_eq:
  "connect example_ext (Key bob_key) alice = (Inr (Awaiting bob_key), alice_connecting)"
  by (simp add: alice_connecting_def alice_eq connect_def resolve_target_def bob_key_def Let_def
        ready_frame ready_def ready_call_def ready_resume_def publicDrive_opts_def drive_body_def example_ext_def
        setupDiscovery_call_def setupDiscovery_resume_def catchConnection_def)

lemma connect_frame:
  "remote (snd (connect E t s)) = remote s \<and> key (snd (connect E t s)) = key s"
  by (simp add: connect_def Let_def ready_frame catchConnection_def split: sum.splits option.splits)

theorem connect_twice_witness:
  "\<not> remote alice \<and> resolve_target example_ext (Key bob_key) = Inr bob_key \<and>
   bob_key \<noteq> key alice \<and>
   fst (connect example_ext (Key bob_key) alice) = Inr (Awaiting bob_key) \<and>
   remotePublicKey bob_socket = bob_key \<and> pi_publicKey bob_peer = bob_key \<and>
   connect example_ext (Key bob_key) alice_connected =
     (Inr (Connected bob_socket (Some (bob_peer\<lparr>pi_slashtag := Some bob_key\<rparr>))), alice_connected) \<and>
   connect example_ext (Key bob_key) (snd (connect example_ext (Key bob_key) alice_connected)) =
     (Inr (Connected bob_socket (Some (bob_peer\<lparr>pi_slashtag := Some bob_key\<rparr>))), alice_connected)"
proof -
  have a: "\<not> remote alice" "bob_key \<noteq> key alice"
    by (simp_all add: alice_eq bob_key_def)
  have r: "resolve_target example_ext (Key bob_key) = Inr bob_key"
    by (simp add: resolve_target_def)
  have b: "remotePublicKey bob_socket = bob_key" "pi_publicKey bob_peer = bob_key"
    by (simp_all add: bob_socket_def bob_peer_def)
  have c: "\<not> remote alice_connected" "bob_key \<noteq> key alice_connected"
    using a connect_frame [of example_ext "Key bob_key" alice]
      handleConnection_frame [of bob_socket bob_peer alice_connecting]
    by (simp_all add: alice_connected_def alice_connecting_def swarm_connection_opened_def
          split_def split: option.splits)
  from connect_twice [OF a(1) r a(2), of _ _ bob_socket bob_peer] alice_connecting_eq b
  have first: "connect example_ext (Key bob_key) alice_connected =
     (Inr (Connected bob_socket (Some (bob_peer\<lparr>pi_slashtag := Some bob_key\<rparr>))), alice_connected)"
    by (simp add: alice_connected_def)
  from connect_twice [OF c(1) r c(2),
      of bob_socket "Some (bob_peer\<lparr>pi_slashtag := Some bob_key\<rparr>)"] first
  have second: "connect example_ext (Key bob_key) (snd (connect example_ext (Key bob_key) alice_connected)) =
     (Inr (Connected bob_socket (Some (bob_peer\<lparr>pi_slashtag := Some bob_key\<rparr>))), alice_connected)"
    by simp
  from a r b alice_connecting_eq first second show ?thesis by simp
qed

text \<open>
  C10. \<open>connect\<close> checks before it awaits \<open>ready()\<close>: on a remote identity, on a target
  that does not resolve, and on a target that resolves to the identity's own key it
  throws and the state is the one it was called on, so no DHT, no swarm and no connection
  has been created. Only a call that passes the three checks goes on to \<open>ready()\<close>.
\<close>

theorem connect_validates_first:
  "(if remote s then connect E t s = (Inl Cannot_connect_remote, s)
    else (case resolve_target E t of
            Inl e \<Rightarrow> connect E t s = (Inl e, s)
          | Inr k \<Rightarrow> if k = key s then connect E t s = (Inl Cannot_connect_self, s)
                     else ready_flag (snd (connect E t s))))"
  by (simp add: connect_def Let_def ready_frame catchConnection_def
        split: sum.splits option.splits)


section \<open>close\<close>

text \<open>
  C6. A second \<open>close\<close> changes nothing, and so does any \<open>close\<close> of a closed identity.
  On an open identity \<open>close\<close> sets \<open>closed\<close> and then emits \<open>'close'\<close>; if there is a
  swarm it then destroys the swarm and after that closes the store; if \<open>ready()\<close> never
  ran and there is no swarm it returns after the emit.
\<close>

theorem close_order:
  "close (close s) = close s \<and>
   (if closed s then close s = s
    else closed (close s) \<and>
         trace (close s) = trace s @
           (case swarm s of
              None \<Rightarrow> [Closed_set, Emit_close]
            | Some sw \<Rightarrow> [Closed_set, Emit_close, Swarm_destroy, Store_close]))"
  by (simp add: close_def Let_def split: option.splits)

text \<open>
  C9. An identity on which \<open>ready()\<close> was never called is one that the constructor
  returned and on which at most \<open>protocol\<close> has been called since (every other method
  awaits \<open>ready()\<close> or throws before changing anything). \<open>close\<close> on it sets \<open>closed\<close> and
  emits \<open>'close'\<close> and does nothing else: \<open>store.close()\<close> is never called, and the
  store is the namespaced store the constructor made, still open.
\<close>

theorem close_before_ready:
  assumes "constructor E opts = Inr s0"
  shows "closed (close (protocol_calls Ps s0)) \<and>
         trace (close (protocol_calls Ps s0)) =
           trace (protocol_calls Ps s0) @ [Closed_set, Emit_close] \<and>
         Store_close \<notin> set (trace (close (protocol_calls Ps s0))) \<and>
         store (close (protocol_calls Ps s0)) = store s0"
proof -
  from constructor_fresh [OF assms] protocol_calls_frame [of Ps s0]
    protocol_calls_trace [of Ps s0]
  have a: "swarm (protocol_calls Ps s0) = None" "\<not> closed (protocol_calls Ps s0)"
     "set (trace (protocol_calls Ps s0)) \<subseteq> range Protocol_new"
     "store (protocol_calls Ps s0) = store s0"
    by auto
  then show ?thesis
    by (auto simp add: close_def Let_def)
qed

theorem close_before_ready_witness:
  "constructor example_ext alice_opts = Inr alice \<and>
   closed (close (protocol_calls [chat] alice)) \<and>
   trace (close (protocol_calls [chat] alice)) = [Protocol_new ''chat'', Closed_set, Emit_close] \<and>
   Store_close \<notin> set (trace (close (protocol_calls [chat] alice))) \<and>
   store (close (protocol_calls [chat] alice)) = store alice \<and>
   \<not> store_closed (store alice)"
proof -
  have t: "trace (protocol_calls [chat] alice) = [Protocol_new ''chat'']"
    by (simp add: protocol_calls_def protocol_def alice_eq chat_def Let_def)
  have o: "\<not> store_closed (store alice)"
    by (simp add: alice_eq)
  from close_before_ready [OF alice_constructed, of "[chat]"] t o alice_constructed
  show ?thesis by simp
qed


section \<open>The constructor\<close>





section \<open>drive\<close>

lemma ready_unfold:
  assumes "\<not> ready_flag s"
  shows "ready E s = (snd (drive_body E (publicDrive_opts s) (session_new s)))
            \<lparr>publicDrive := Some (fst (drive_body E (publicDrive_opts s) (session_new s)))\<rparr>"
  using assms
  by (simp add: ready_def ready_call_def ready_resume_def Let_def split_def session_new_def
        publicDrive_opts_def)

lemma session_new_fields:
  "store (session_new s) = store s" "drives (session_new s) = drives s"
  "fresh (session_new s) = Suc (fresh s)"
  "trace (session_new s) = trace s @ [DHT_create, Hyperswarm_new, Swarm_on_connection]"
  "\<exists>sw. swarm (session_new s) = Some sw" "ready_flag (session_new s)"
  by (simp_all add: session_new_def)








text \<open>After \<open>ready()\<close> an identity that had its swarm when ready has a swarm.\<close>

lemma ready_has_swarm:
  assumes "ready_flag s \<longrightarrow> swarm s \<noteq> None"
  shows "swarm (ready E s) \<noteq> None"
proof (cases "ready_flag s")
  case True
  with assms show ?thesis by (simp add: ready_when_ready)
next
  case False
  with ready_swarm [of s E] show ?thesis by auto
qed




section \<open>The profile\<close>

lemma SlashDrive_put_frame:
  "ready_flag (snd (SlashDrive_put d path v s)) = ready_flag s \<and>
   publicDrive (snd (SlashDrive_put d path v s)) = publicDrive s"
  by (simp add: SlashDrive_put_def Let_def)

lemma SlashDrive_put_get:
  assumes "writable d"
  shows "fst (SlashDrive_put d path v s) = Inr () \<and>
         store_data (store (snd (SlashDrive_put d path v s))) (drive_key d) path = Some v"
  using assms by (simp add: SlashDrive_put_def Let_def)

text \<open>
  On an identity that is not ready, the default drive is the handle that \<open>ready()\<close>
  constructs from \<open>{ key, keyPair }\<close>: it is writable when the drive resolved from these
  options is.
\<close>

lemma default_drive_writable_new:
  assumes "\<not> ready_flag s"
    and "SlashDrive_resolve E (store_namespace (store s)) (publicDrive_opts s) = (K, dk, True)"
    and "drives s K = None"
  shows "default_drive_writable E s"
proof -
  obtain sw where sn: "store (session_new s) = store s" "drives (session_new s) = drives s"
      "swarm (session_new s) = Some sw"
    using session_new_fields [of s] by blast
  have "SlashDrive_resolve E (store_namespace (store (session_new s))) (publicDrive_opts s) =
          (K, dk, True)"
    using assms(2) sn by simp
  from drive_body_new [OF this _ sn(3)] assms(3) sn
  have "writable (fst (drive_body E (publicDrive_opts s) (session_new s)))"
    by simp
  with assms(1) show ?thesis
    by (simp add: default_drive_writable_def ready_unfold)
qed

text \<open>
  C8. For a JSON-serializable value \<open>p\<close>, on an identity whose default drive accepts
  writes (a local identity opens it with its key pair), \<open>setProfile(p)\<close> succeeds and
  stores the JSON text of \<open>p\<close> as bytes under \<open>profile.json\<close> in the default drive, and
  \<open>getProfile()\<close> after it returns \<open>p\<close>. On an identity whose default drive holds
  nothing under \<open>profile.json\<close>, \<open>getProfile()\<close> returns null and no error.
\<close>

theorem profile_roundtrip:
  "(JSON_serializable E p \<and> default_drive_writable E s \<longrightarrow>
      fst (setProfile E p s) = Inr () \<and>
      fst (getProfile E (snd (setProfile E p s))) = Inr (Some p) \<and>
      (\<exists>d. publicDrive (snd (setProfile E p s)) = Some d \<and>
           store_data (store (snd (setProfile E p s))) (drive_key d) ''profile.json'' =
             Some (b4a_from E (JSON_stringify E p)))) \<and>
   (profile_never_set E s \<longrightarrow> fst (getProfile E s) = Inr None)"
proof (intro conjI impI)
  assume "profile_never_set E s"
  then show "fst (getProfile E s) = Inr None"
    by (simp add: profile_never_set_def getProfile_def SlashDrive_get_def Let_def ready_frame
          split: option.splits)
next
  assume a: "JSON_serializable E p \<and> default_drive_writable E s"
  then obtain d where d: "publicDrive (ready E s) = Some d" "writable d"
    by (auto simp add: default_drive_writable_def split: option.splits)
  define v where "v = b4a_from E (JSON_stringify E p)"
  define s2 where "s2 = snd (SlashDrive_put d DRIVE_KEYS_profile v (ready E s))"
  have sp: "setProfile E p s = (Inr (), s2)"
    using d SlashDrive_put_get [OF d(2), of DRIVE_KEYS_profile v "ready E s"]
    by (simp add: setProfile_def Let_def s2_def v_def prod_eq_iff)
  have s2: "ready_flag s2" "publicDrive s2 = Some d"
      "store_data (store s2) (drive_key d) DRIVE_KEYS_profile = Some v"
    using d SlashDrive_put_frame [of d DRIVE_KEYS_profile v "ready E s"]
      SlashDrive_put_get [OF d(2), of DRIVE_KEYS_profile v "ready E s"]
    by (simp_all add: s2_def ready_frame)
  have gp: "fst (getProfile E s2) = Inr (Some p)"
    using s2 a
    by (simp add: getProfile_def SlashDrive_get_def Let_def ready_when_ready v_def
          JSON_serializable_def)
  show "fst (setProfile E p s) = Inr ()" by (simp add: sp)
  show "fst (getProfile E (snd (setProfile E p s))) = Inr (Some p)" by (simp add: sp gp)
  show "\<exists>d. publicDrive (snd (setProfile E p s)) = Some d \<and>
           store_data (store (snd (setProfile E p s))) (drive_key d) ''profile.json'' =
             Some (b4a_from E (JSON_stringify E p))"
    using s2 by (simp add: sp v_def DRIVE_KEYS_profile_def)
qed

lemma bytes_text_bytes: "bytes_text (text_bytes t) = t"
  unfolding bytes_text_def text_bytes_def
  by (induction t) (simp_all add: unat_of_nat)

lemma alice_ready:
  "publicDrive (ready example_ext alice) =
     Some \<lparr>drive_id = 1, drive_key = [0xA1, 0xA2, 0xA3, 0xA4],
           discoveryKey = [0xA4, 0xA3, 0xA2, 0xA1], writable = True\<rparr> \<and>
   store (ready example_ext alice) = store alice"
  by (simp add: alice_eq ready_def ready_call_def ready_resume_def publicDrive_opts_def
        drive_body_def example_ext_def Let_def setupDiscovery_call_def setupDiscovery_resume_def
        alice_keyPair_def)

theorem profile_roundtrip_witness:
  "JSON_serializable example_ext [(''name'', ''alice'')] \<and>
   default_drive_writable example_ext alice \<and>
   profile_never_set example_ext alice \<and>
   fst (setProfile example_ext [(''name'', ''alice'')] alice) = Inr () \<and>
   fst (getProfile example_ext (snd (setProfile example_ext [(''name'', ''alice'')] alice))) =
     Inr (Some [(''name'', ''alice'')]) \<and>
   fst (getProfile example_ext alice) = Inr None"
proof -
  have j: "JSON_serializable example_ext [(''name'', ''alice'')]"
    by (simp add: JSON_serializable_def example_ext_def bytes_text_bytes)
  have w: "default_drive_writable example_ext alice"
    by (simp add: default_drive_writable_def alice_ready)
  have n: "profile_never_set example_ext alice"
    by (simp add: profile_never_set_def alice_ready) (simp add: alice_eq)
  from profile_roundtrip [of example_ext "[(''name'', ''alice'')]" alice] j w n
  show ?thesis by simp
qed


section \<open>The class of packages/slashtag/index.js\<close>

text \<open>
  In the smaller class, too, a \<open>connect\<close> that returned a socket is followed by a
  \<open>connect\<close> to the same target that returns that socket and changes nothing, so that
  no second \<open>dht.connect\<close> is issued.
\<close>

lemma pkg_connect_twice:
  "(case pkg_connect U t s of
      (Inl e, s1) \<Rightarrow> s1 = s
    | (Inr c, s1) \<Rightarrow> pkg_connect U t s1 = (Inr c, s1))"
  by (simp add: pkg_connect_def pkg_handleConnection_def Let_def update_conv'
        split: sum.splits option.splits)

text \<open>
  Its \<open>close\<close> is idempotent through \<open>this._closing\<close>, and has another order than the
  \<open>close\<close> of the class above: the store is closed first, then the server, the sockets
  and the DHT, and \<open>closed\<close> is set and \<open>'close'\<close> emitted last, after all listeners have
  been removed.
\<close>

lemma pkg_close_order:
  "pkg_close (pkg_close s) = pkg_close s \<and>
   (if pkg_closing s then pkg_close s = s
    else pkg_closed (pkg_close s) \<and>
         pkg_trace (pkg_close s) = pkg_trace s @
           [Corestore_close, RemoveAllListeners, Server_close] @
           map (\<lambda>(k, c). Socket_destroy (sock_id c)) (pkg_sockets s) @
           (if pkg_shouldDestroyDHT s then [DHT_destroy] else []) @
           [Closed_assigned, Emit ''close''])"
  by (simp add: pkg_close_def pkg_close_call_def pkg_close_resume_def pkg_unlisten_def Let_def)

end
